theory Spec2Isabelle
  imports Complex_Main "HOL-Library.AList" "HOL-Library.Log_Nat"
begin

section \<open>Stock portfolio tracker: position accounting and performance\<close>

text \<open>
  A shallow embedding of \<^verbatim>\<open>src/portfolio_manager.py\<close> over the tables declared in
  \<^verbatim>\<open>src/database.py\<close>.

  Modelling decisions.
  \<^item> The SQLite database behind the SQLAlchemy engine is a record of three row lists, in
    insertion order. The autoincrement primary keys of transactions and snapshots are
    never read by the modelled functions and are left out.
  \<^item> Python floats are modelled as \<^typ>\<open>real\<close>, the number type of the data model
    (share quantity and price are reals there), and the functions compute in exact
    arithmetic. Where a property depends on the rounding of the float operations, the loop
    body is given a second time as \<open>process_txn_fl\<close>, with the rounding of every
    operation explicit, and \<open>f64\<close> is rounding to binary64. Infinities and NaN are
    outside the model.
  \<^item> Timestamps are integers; a string is a list of ASCII characters.
  \<^item> The price source \<^verbatim>\<open>get_current_price\<close> is a network call that catches its own
    exceptions and returns a price or \<^verbatim>\<open>None\<close>; it is a parameter
    \<open>prices :: string \<Rightarrow> real option\<close>.
  \<^item> Every function of the module wraps its body in \<^verbatim>\<open>try ... except Exception\<close>.
    With the store a value and the numbers reals, no statement of the bodies can raise,
    so the handlers are unreachable in the model; the result types keep the
    \<^verbatim>\<open>None\<close> / \<^verbatim>\<open>False\<close> they would return.
  \<^item> Of the messages printed, only the over-sell warning of the holdings loop is kept,
    as a log threaded through the loop.
\<close>

subsection \<open>Tables\<close>

record portfolio =
  pf_id :: int
  pf_name :: string
  created_at :: int

record transaction =
  portfolio_id :: int
  ticker :: string
  transaction_type :: string
  shares :: real
  price_per_share :: real
  transaction_date :: int
  txn_notes :: string

record portfolio_snapshot =
  snap_portfolio_id :: int
  total_value :: real
  snapshot_date :: int

record store =
  portfolios :: "portfolio list"
  transactions :: "transaction list"
  snapshots :: "portfolio_snapshot list"

text \<open>\<^verbatim>\<open>session.query(Portfolio).filter_by(id=portfolio_id).first()\<close>\<close>

definition query_portfolio :: "store \<Rightarrow> int \<Rightarrow> portfolio option" where
  "query_portfolio st pid = find (\<lambda>p. pf_id p = pid) (portfolios st)"

text \<open>
  \<^verbatim>\<open>session.query(Transaction).filter_by(portfolio_id=...).order_by(Transaction.transaction_date).all()\<close>:
  the rows of the portfolio, ascending by date, rows of equal date in storage order
  (\<^const>\<open>sort_key\<close> is a stable insertion sort).
\<close>

definition query_transactions :: "store \<Rightarrow> int \<Rightarrow> transaction list" where
  "query_transactions st pid =
     sort_key transaction_date (filter (\<lambda>x. portfolio_id x = pid) (transactions st))"

subsection \<open>Strings\<close>

definition lower_char :: "char \<Rightarrow> char" where
  "lower_char c =
     (case map_of (zip ''ABCDEFGHIJKLMNOPQRSTUVWXYZ'' ''abcdefghijklmnopqrstuvwxyz'') c of
        None \<Rightarrow> c | Some d \<Rightarrow> d)"

definition upper_char :: "char \<Rightarrow> char" where
  "upper_char c =
     (case map_of (zip ''abcdefghijklmnopqrstuvwxyz'' ''ABCDEFGHIJKLMNOPQRSTUVWXYZ'') c of
        None \<Rightarrow> c | Some d \<Rightarrow> d)"

definition lower :: "string \<Rightarrow> string" where
  "lower s = map lower_char s"

definition upper :: "string \<Rightarrow> string" where
  "upper s = map upper_char s"

subsection \<open>Data frames\<close>

text \<open>
  A pandas data frame is its column labels and its rows. \<^verbatim>\<open>pd.DataFrame(data)\<close> on a
  list of dictionaries takes the labels from the dictionaries, so on the empty list it
  has no column at all; \<^verbatim>\<open>df.empty\<close> holds when either axis has length zero.
\<close>

record 'r dataframe =
  columns :: "string list"
  rows :: "'r list"

definition DataFrame :: "string list \<Rightarrow> 'r list \<Rightarrow> 'r dataframe" where
  "DataFrame cols rs = \<lparr>columns = (if rs = [] then [] else cols), rows = rs\<rparr>"

definition df_empty :: "'r dataframe \<Rightarrow> bool" where
  "df_empty df = (columns df = [] \<or> rows df = [])"

subsection \<open>add_transaction\<close>

definition add_transaction ::
  "store \<Rightarrow> int \<Rightarrow> string \<Rightarrow> string \<Rightarrow> real \<Rightarrow> real \<Rightarrow> int \<Rightarrow> string \<Rightarrow> bool \<times> store" where
  "add_transaction st pid tick ttype sh price date note =
     (if lower ttype \<notin> set [''buy'', ''sell''] then (False, st)
      else if sh \<le> 0 then (False, st)
      else if price \<le> 0 then (False, st)
      else case query_portfolio st pid of
             None \<Rightarrow> (False, st)
           | Some p \<Rightarrow>
               (True, st\<lparr>transactions := transactions st @
                  [\<lparr>portfolio_id = pid, ticker = upper tick, transaction_type = lower ttype,
                    shares = sh, price_per_share = price, transaction_date = date,
                    txn_notes = note\<rparr>]\<rparr>))"

subsection \<open>get_portfolio_holdings\<close>

text \<open>
  The dictionary \<^verbatim>\<open>holdings\<close> maps a ticker to a dictionary with the keys
  \<^verbatim>\<open>total_shares\<close> and \<^verbatim>\<open>total_cost\<close>. Python dictionaries keep insertion order and
  the rows of the result follow it, so the dictionary is an association list:
  \<^const>\<open>AList.update\<close> replaces the value of a key where it stands and appends a new key.
\<close>

record accum =
  total_shares :: real
  total_cost :: real

type_synonym holdings = "(string \<times> accum) list"

datatype warning = Selling_no_shares real string

record holding_row =
  row_ticker :: string
  row_total_shares :: real
  row_avg_cost_basis :: real
  row_total_cost :: real

text \<open>The body of the loop over the transactions; the second component collects the warnings.\<close>

fun process_txn :: "holdings \<times> warning list \<Rightarrow> transaction \<Rightarrow> holdings \<times> warning list" where
  "process_txn (holdings, warns) txn =
     (let t = ticker txn;
          holdings = (if map_of holdings t = None
                      then AList.update t \<lparr>total_shares = 0, total_cost = 0\<rparr> holdings
                      else holdings);
          cur = (case map_of holdings t of
                   Some v \<Rightarrow> v
                 | None \<Rightarrow> \<lparr>total_shares = 0, total_cost = 0\<rparr>)
      in if transaction_type txn = ''buy'' then
           (AList.update t
              \<lparr>total_shares = total_shares cur + shares txn,
               total_cost = total_cost cur + shares txn * price_per_share txn\<rparr> holdings, warns)
         else if transaction_type txn = ''sell'' then
           (if total_shares cur > 0 then
              (let avg_cost = total_cost cur / total_shares cur
               in (AList.update t
                     \<lparr>total_shares = total_shares cur - shares txn,
                      total_cost = total_cost cur - shares txn * avg_cost\<rparr> holdings, warns))
            else (holdings, warns @ [Selling_no_shares (shares txn) t]))
         else (holdings, warns))"

definition process_transactions :: "transaction list \<Rightarrow> holdings \<times> warning list" where
  "process_transactions txns = foldl process_txn ([], []) txns"

text \<open>The conversion loop: one row for each ticker with strictly positive shares.\<close>

fun holdings_rows :: "holdings \<Rightarrow> holding_row list" where
  "holdings_rows [] = []"
| "holdings_rows ((t, values) # rest) =
     (if total_shares values > 0 then
        \<lparr>row_ticker = t,
         row_total_shares = total_shares values,
         row_avg_cost_basis =
           (if total_shares values > 0 then total_cost values / total_shares values else 0),
         row_total_cost = total_cost values\<rparr> # holdings_rows rest
      else holdings_rows rest)"

definition holdings_columns :: "string list" where
  "holdings_columns = [''ticker'', ''total_shares'', ''avg_cost_basis'', ''total_cost'']"

definition get_portfolio_holdings :: "store \<Rightarrow> int \<Rightarrow> holding_row dataframe option" where
  "get_portfolio_holdings st pid =
     (case query_portfolio st pid of
        None \<Rightarrow> None
      | Some p \<Rightarrow>
          (let txns = query_transactions st pid
           in if txns = [] then Some \<lparr>columns = holdings_columns, rows = []\<rparr>
              else Some (DataFrame holdings_columns
                           (holdings_rows (fst (process_transactions txns))))))"

subsection \<open>get_portfolio_performance\<close>

record position =
  pos_ticker :: string
  pos_shares :: real
  pos_avg_cost_basis :: real
  current_price :: real
  pos_total_cost :: real
  current_value :: real
  gain_loss_dollar :: real
  gain_loss_percent :: real

record performance =
  positions :: "position dataframe"
  perf_total_cost :: real
  total_current_value :: real
  total_gain_loss_dollar :: real
  total_gain_loss_percent :: real

definition position_columns :: "string list" where
  "position_columns = [''ticker'', ''shares'', ''avg_cost_basis'', ''current_price'',
     ''total_cost'', ''current_value'', ''gain_loss_dollar'', ''gain_loss_percent'']"

text \<open>
  The loop over the rows of the holdings frame, with its three accumulators
  \<^verbatim>\<open>performance_data\<close>, \<^verbatim>\<open>total_cost\<close> and \<^verbatim>\<open>total_current_value\<close>.
\<close>

fun performance_loop ::
  "(string \<Rightarrow> real option) \<Rightarrow> holding_row list \<Rightarrow> position list \<times> real \<times> real
     \<Rightarrow> position list \<times> real \<times> real" where
  "performance_loop prices [] acc = acc"
| "performance_loop prices (row # rest) (performance_data, tc, tv) =
     (case prices (row_ticker row) of
        None \<Rightarrow> performance_loop prices rest (performance_data, tc, tv)
      | Some price \<Rightarrow>
          (let position_cost = row_total_cost row;
               cur_value = row_total_shares row * price;
               gl_dollar = cur_value - position_cost;
               gl_percent = (if position_cost > 0 then gl_dollar / position_cost * 100 else 0)
           in performance_loop prices rest
                (performance_data @
                   [\<lparr>pos_ticker = row_ticker row, pos_shares = row_total_shares row,
                     pos_avg_cost_basis = row_avg_cost_basis row, current_price = price,
                     pos_total_cost = position_cost, current_value = cur_value,
                     gain_loss_dollar = gl_dollar, gain_loss_percent = gl_percent\<rparr>],
                 tc + position_cost, tv + cur_value)))"

definition zero_performance :: performance where
  "zero_performance =
     \<lparr>positions = \<lparr>columns = [], rows = []\<rparr>, perf_total_cost = 0, total_current_value = 0,
      total_gain_loss_dollar = 0, total_gain_loss_percent = 0\<rparr>"

definition get_portfolio_performance ::
  "(string \<Rightarrow> real option) \<Rightarrow> store \<Rightarrow> int \<Rightarrow> performance option" where
  "get_portfolio_performance prices st pid =
     (case get_portfolio_holdings st pid of
        None \<Rightarrow> Some zero_performance
      | Some holdings_df \<Rightarrow>
          if df_empty holdings_df then Some zero_performance
          else (case performance_loop prices (rows holdings_df) ([], 0, 0) of
                  (performance_data, tc, tv) \<Rightarrow>
                    (let gl_dollar = tv - tc;
                         gl_percent = (if tc > 0 then gl_dollar / tc * 100 else 0)
                     in Some \<lparr>positions = DataFrame position_columns performance_data,
                              perf_total_cost = tc, total_current_value = tv,
                              total_gain_loss_dollar = gl_dollar,
                              total_gain_loss_percent = gl_percent\<rparr>)))"

subsection \<open>save_portfolio_snapshot\<close>

text \<open>\<open>now\<close> is the value of \<^verbatim>\<open>datetime.utcnow()\<close>.\<close>

definition save_portfolio_snapshot ::
  "(string \<Rightarrow> real option) \<Rightarrow> int \<Rightarrow> store \<Rightarrow> int \<Rightarrow> bool \<times> store" where
  "save_portfolio_snapshot prices now st pid =
     (case get_portfolio_performance prices st pid of
        None \<Rightarrow> (False, st)
      | Some perf \<Rightarrow>
          (case query_portfolio st pid of
             None \<Rightarrow> (False, st)
           | Some p \<Rightarrow>
               (True, st\<lparr>snapshots := snapshots st @
                  [\<lparr>snap_portfolio_id = pid, total_value = total_current_value perf,
                    snapshot_date = now\<rparr>]\<rparr>)))"

subsection \<open>Views of the accumulator used in the statements\<close>

text \<open>
  The loop body creates the entry of a ticker, with zero shares and zero cost, before it
  reads it. \<open>acc_of\<close> reads the dictionary in that way: a ticker without an entry has the
  initial accumulator. \<open>acc_step\<close> is what one transaction does to the accumulator of its
  own ticker, and \<open>holding_row_of\<close> the row emitted for a ticker with positive shares; both
  are related to the loop by the lemmas below.
\<close>

definition acc_of :: "holdings \<Rightarrow> string \<Rightarrow> accum" where
  "acc_of h t = (case map_of h t of Some v \<Rightarrow> v | None \<Rightarrow> \<lparr>total_shares = 0, total_cost = 0\<rparr>)"

definition acc_step :: "accum \<Rightarrow> transaction \<Rightarrow> accum" where
  "acc_step a txn =
     (if transaction_type txn = ''buy'' then
        \<lparr>total_shares = total_shares a + shares txn,
         total_cost = total_cost a + shares txn * price_per_share txn\<rparr>
      else if transaction_type txn = ''sell'' then
        (if total_shares a > 0 then
           \<lparr>total_shares = total_shares a - shares txn,
            total_cost = total_cost a - shares txn * (total_cost a / total_shares a)\<rparr>
         else a)
      else a)"

definition holding_row_of :: "string \<Rightarrow> accum \<Rightarrow> holding_row" where
  "holding_row_of t a =
     \<lparr>row_ticker = t, row_total_shares = total_shares a,
      row_avg_cost_basis = total_cost a / total_shares a, row_total_cost = total_cost a\<rparr>"

subsection \<open>Example stores\<close>

definition mk_txn :: "string \<Rightarrow> string \<Rightarrow> real \<Rightarrow> real \<Rightarrow> int \<Rightarrow> transaction" where
  "mk_txn t k q p d = \<lparr>portfolio_id = 1, ticker = t, transaction_type = k, shares = q,
     price_per_share = p, transaction_date = d, txn_notes = []\<rparr>"

definition store_empty_pf :: store where
  "store_empty_pf = \<lparr>portfolios = [\<lparr>pf_id = 1, pf_name = ''Empty Portfolio'', created_at = 0\<rparr>],
     transactions = [], snapshots = []\<rparr>"


definition store_two_pf :: store where
  "store_two_pf =
     \<lparr>portfolios = [\<lparr>pf_id = 1, pf_name = ''Test Portfolio'', created_at = 0\<rparr>,
                    \<lparr>pf_id = 2, pf_name = ''Empty Portfolio'', created_at = 1\<rparr>],
      transactions = [mk_txn ''AAPL'' ''buy'' 10 150 10], snapshots = []\<rparr>"

definition example_prices :: "string \<Rightarrow> real option" where
  "example_prices = map_of [(''AAPL'', 175)]"

definition store_tsla :: store where
  "store_tsla = \<lparr>portfolios = [\<lparr>pf_id = 1, pf_name = ''Test Portfolio'', created_at = 0\<rparr>],
     transactions = [mk_txn ''TSLA'' ''buy'' 5 200 10, mk_txn ''MSFT'' ''buy'' 8 350 12,
        mk_txn ''TSLA'' ''sell'' 5 250 20], snapshots = []\<rparr>"

definition holdings_tsla :: holdings where
  "holdings_tsla = [(''TSLA'', \<lparr>total_shares = 0, total_cost = 0\<rparr>),
                    (''MSFT'', \<lparr>total_shares = 8, total_cost = 2800\<rparr>)]"

definition store_mixed :: store where
  "store_mixed = \<lparr>portfolios = [\<lparr>pf_id = 1, pf_name = ''Test Portfolio'', created_at = 0\<rparr>],
     transactions = [mk_txn ''AAPL'' ''buy'' 10 150 10, mk_txn ''MSFT'' ''buy'' 8 350 12],
     snapshots = []\<rparr>"

definition df_tsla :: "holding_row dataframe" where
  "df_tsla = \<lparr>columns = holdings_columns,
     rows = [\<lparr>row_ticker = ''MSFT'', row_total_shares = 8, row_avg_cost_basis = 350,
              row_total_cost = 2800\<rparr>]\<rparr>"

definition df_mixed :: "holding_row dataframe" where
  "df_mixed = \<lparr>columns = holdings_columns,
     rows = [\<lparr>row_ticker = ''AAPL'', row_total_shares = 10, row_avg_cost_basis = 150,
              row_total_cost = 1500\<rparr>,
             \<lparr>row_ticker = ''MSFT'', row_total_shares = 8, row_avg_cost_basis = 350,
              row_total_cost = 2800\<rparr>]\<rparr>"

subsection \<open>Binary64 arithmetic\<close>

text \<open>
  The columns \<^verbatim>\<open>shares\<close> and \<^verbatim>\<open>price_per_share\<close> are \<^verbatim>\<open>Float\<close> and Python's
  \<^verbatim>\<open>float\<close> is IEEE 754 binary64: every \<^verbatim>\<open>+\<close>, \<^verbatim>\<open>-\<close>, \<^verbatim>\<open>*\<close> and \<^verbatim>\<open>/\<close> returns the
  exact result rounded to the nearest representable number, ties to the even significand.
  \<open>f64\<close> is that rounding on the reals: the significand has 53 bits, the unit in the last
  place of \<open>x\<close> is \<open>2\<close> to the power \<open>ilog2 \<bar>x\<bar> - 52\<close>, and below \<open>2\<close> to the
  power \<open>- 1022\<close> (the subnormal numbers) it stays at \<open>2\<close> to the power \<open>- 1074\<close>.
  Overflow to infinity (a result of magnitude \<open>2\<close> to the power \<open>1024\<close> or more) is not
  modelled.
\<close>

definition round_half_even :: "real \<Rightarrow> int" where
  "round_half_even y =
     (let n = \<lfloor>y\<rfloor>; r = y - of_int n
      in if r < 1 / 2 then n else if 1 / 2 < r then n + 1 else if even n then n else n + 1)"

text \<open>\<open>ilog2 y\<close> is the integer part of the binary logarithm of a positive \<open>y\<close>.\<close>

definition ilog2 :: "real \<Rightarrow> int" where
  "ilog2 y =
     (if 1 \<le> y then bitlen \<lfloor>y\<rfloor> - 1
      else (let k = bitlen \<lfloor>1 / y\<rfloor> - 1
            in if y * 2 ^ nat k = 1 then - k else - k - 1))"

definition pow2 :: "int \<Rightarrow> real" where
  "pow2 k = (if 0 \<le> k then 2 ^ nat k else 1 / 2 ^ nat (- k))"

definition f64 :: "real \<Rightarrow> real" where
  "f64 x =
     (if x = 0 then 0
      else (let u = pow2 (max (ilog2 \<bar>x\<bar>) (- 1022) - 52)
            in of_int (round_half_even (x / u)) * u))"

text \<open>
  The loop body of \<^verbatim>\<open>get_portfolio_holdings\<close> once more (lines 143 to 160 of the source),
  with the rounding \<open>fl\<close> applied to the result of each arithmetic operation, in the order
  in which Python evaluates them. With \<open>fl\<close> the identity it is \<open>process_txn\<close>; the
  program runs it with \<open>f64\<close>.
\<close>

fun process_txn_fl ::
  "(real \<Rightarrow> real) \<Rightarrow> holdings \<times> warning list \<Rightarrow> transaction \<Rightarrow> holdings \<times> warning list" where
  "process_txn_fl fl (holdings, warns) txn =
     (let t = ticker txn;
          holdings = (if map_of holdings t = None
                      then AList.update t \<lparr>total_shares = 0, total_cost = 0\<rparr> holdings
                      else holdings);
          cur = (case map_of holdings t of
                   Some v \<Rightarrow> v
                 | None \<Rightarrow> \<lparr>total_shares = 0, total_cost = 0\<rparr>)
      in if transaction_type txn = ''buy'' then
           (AList.update t
              \<lparr>total_shares = fl (total_shares cur + shares txn),
               total_cost = fl (total_cost cur + fl (shares txn * price_per_share txn))\<rparr>
              holdings, warns)
         else if transaction_type txn = ''sell'' then
           (if total_shares cur > 0 then
              (let avg_cost = fl (total_cost cur / total_shares cur)
               in (AList.update t
                     \<lparr>total_shares = fl (total_shares cur - shares txn),
                      total_cost = fl (total_cost cur - fl (shares txn * avg_cost))\<rparr>
                     holdings, warns))
            else (holdings, warns @ [Selling_no_shares (shares txn) t]))
         else (holdings, warns))"



definition holdings_dust :: holdings where
  "holdings_dust = [(''X'', \<lparr>total_shares = 1351079888211149 / 2 ^ 52, total_cost = 3\<rparr>)]"

section \<open>Properties\<close>

subsection \<open>The store queries and the holdings loop\<close>

lemma query_portfolio_None_iff:
  "query_portfolio st pid = None \<longleftrightarrow> pid \<notin> pf_id ` set (portfolios st)"
  by (auto simp: query_portfolio_def find_None_iff)

lemma holdings_None_iff:
  "get_portfolio_holdings st pid = None \<longleftrightarrow> pid \<notin> pf_id ` set (portfolios st)"
  by (simp add: get_portfolio_holdings_def Let_def query_portfolio_None_iff [symmetric]
           split: option.splits)

lemma map_of_process_txn:
  "map_of (fst (process_txn (h, w) x)) t =
     (if t = ticker x then Some (acc_step (acc_of h t) x) else map_of h t)"
  by (auto simp: Let_def acc_step_def acc_of_def update_conv' split: option.splits)

lemma acc_of_process_txn:
  "acc_of (fst (process_txn (h, w) x)) t =
     (if t = ticker x then acc_step (acc_of h t) x else acc_of h t)"
  unfolding acc_of_def [of "fst (process_txn (h, w) x)"] map_of_process_txn
  by (simp add: acc_of_def)

lemma keys_process_txn:
  "fst ` set (fst (process_txn (h, w) x)) = insert (ticker x) (fst ` set h)"
proof -
  have "dom (map_of (fst (process_txn (h, w) x))) = insert (ticker x) (dom (map_of h))"
    unfolding map_of_process_txn by (auto split: if_splits)
  then show ?thesis by (simp add: dom_map_of_conv_image_fst)
qed

lemma distinct_process_txn:
  "distinct (map fst h) \<Longrightarrow> distinct (map fst (fst (process_txn (h, w) x)))"
  by (auto simp: Let_def distinct_update)

declare process_txn.simps [simp del]

lemma acc_of_foldl:
  "acc_of (fst (foldl process_txn s txns)) t =
     foldl acc_step (acc_of (fst s) t) (filter (\<lambda>x. ticker x = t) txns)"
proof (induction txns arbitrary: s)
  case Nil
  show ?case by simp
next
  case (Cons x xs)
  obtain h w where s: "s = (h, w)" by (cases s)
  show ?case
    unfolding foldl_Cons Cons.IH s
    by (simp add: acc_of_process_txn)
qed

lemma keys_foldl:
  "fst ` set (fst (foldl process_txn s txns)) = fst ` set (fst s) \<union> ticker ` set txns"
proof (induction txns arbitrary: s)
  case Nil
  show ?case by simp
next
  case (Cons x xs)
  obtain h w where s: "s = (h, w)" by (cases s)
  show ?case
    unfolding foldl_Cons Cons.IH s keys_process_txn by auto
qed

lemma distinct_foldl:
  "distinct (map fst (fst s)) \<Longrightarrow> distinct (map fst (fst (foldl process_txn s txns)))"
proof (induction txns arbitrary: s)
  case Nil
  then show ?case by simp
next
  case (Cons x xs)
  obtain h w where s: "s = (h, w)" by (cases s)
  from Cons.prems have "distinct (map fst (fst (process_txn s x)))"
    unfolding s by (simp only: fst_conv distinct_process_txn)
  from Cons.IH [OF this] show ?case by simp
qed

lemma holdings_rows_tickers:
  "set (map row_ticker (holdings_rows h)) = {t. \<exists>a. (t, a) \<in> set h \<and> total_shares a > 0}"
  by (induction h rule: holdings_rows.induct) auto

lemma holdings_rows_other:
  "t \<notin> fst ` set h \<Longrightarrow> filter (\<lambda>r. row_ticker r = t) (holdings_rows h) = []"
  by (induction h rule: holdings_rows.induct) (auto simp: image_iff)

lemma holdings_rows_ticker:
  "distinct (map fst h) \<Longrightarrow>
   filter (\<lambda>r. row_ticker r = t) (holdings_rows h) =
     (if total_shares (acc_of h t) > 0 then [holding_row_of t (acc_of h t)] else [])"
proof (induction h rule: holdings_rows.induct)
  case 1
  show ?case by (simp add: acc_of_def)
next
  case (2 k v rest)
  show ?case
  proof (cases "k = t")
    case True
    with "2.prems" have "t \<notin> fst ` set rest" by auto
    then have "filter (\<lambda>r. row_ticker r = t) (holdings_rows rest) = []"
      by (rule holdings_rows_other)
    with True show ?thesis
      by (simp add: acc_of_def holding_row_of_def)
  next
    case False
    with 2 show ?thesis
      by (auto simp: acc_of_def)
  qed
qed

lemma holdings_rows_key:
  "r \<in> set (holdings_rows h) \<Longrightarrow> row_ticker r \<in> fst ` set h"
  by (induction h rule: holdings_rows.induct) (auto split: if_splits)

lemma distinct_holdings_rows:
  "distinct (map fst h) \<Longrightarrow> distinct (map row_ticker (holdings_rows h))"
  by (induction h rule: holdings_rows.induct) (auto dest: holdings_rows_key)

lemma holdings_Some_rows:
  assumes "pid \<in> pf_id ` set (portfolios st)"
  shows "\<exists>df. get_portfolio_holdings st pid = Some df \<and>
           rows df = holdings_rows (fst (process_transactions (query_transactions st pid)))"
proof -
  from assms obtain p where "query_portfolio st pid = Some p"
    using query_portfolio_None_iff [of st pid] by auto
  then show ?thesis
    by (simp add: get_portfolio_holdings_def Let_def DataFrame_def process_transactions_def)
qed

lemma holdings_rows_of_Some:
  assumes "get_portfolio_holdings st pid = Some df"
  shows "rows df = holdings_rows (fst (process_transactions (query_transactions st pid)))"
proof -
  from assms have "query_portfolio st pid \<noteq> None"
    by (auto simp: get_portfolio_holdings_def split: option.splits)
  then have "pid \<in> pf_id ` set (portfolios st)"
    by (simp add: query_portfolio_None_iff)
  from holdings_Some_rows [OF this] assms show ?thesis by auto
qed

lemma distinct_process_transactions:
  "distinct (map fst (fst (process_transactions txns)))"
  unfolding process_transactions_def by (rule distinct_foldl) simp

lemma acc_of_process_transactions:
  "acc_of (fst (process_transactions txns)) t =
     foldl acc_step \<lparr>total_shares = 0, total_cost = 0\<rparr> (filter (\<lambda>x. ticker x = t) txns)"
  unfolding process_transactions_def acc_of_foldl by (simp add: acc_of_def)





lemma process_txn_sell_no_shares:
  assumes "transaction_type txn = ''sell''"
    and "total_shares (acc_of h (ticker txn)) \<le> 0"
  shows "process_txn (h, w) txn =
           (if map_of h (ticker txn) = None
            then AList.update (ticker txn) \<lparr>total_shares = 0, total_cost = 0\<rparr> h else h,
            w @ [Selling_no_shares (shares txn) (ticker txn)])"
  using assms
  by (auto simp: process_txn.simps Let_def acc_of_def update_conv' split: option.splits)

lemma holdings_rows_update_zero:
  "map_of h t = None \<Longrightarrow>
   holdings_rows (AList.update t \<lparr>total_shares = 0, total_cost = 0\<rparr> h) = holdings_rows h"
  by (induction h rule: holdings_rows.induct) (auto split: if_splits)

lemma holdings_tickers_map_of:
  "distinct (map fst h) \<Longrightarrow>
   set (map row_ticker (holdings_rows h)) =
     {t. \<exists>a. map_of h t = Some a \<and> 0 < total_shares a}"
  unfolding holdings_rows_tickers by auto

lemma query_transactions_store_tsla:
  "query_transactions store_tsla 1 =
     [mk_txn ''TSLA'' ''buy'' 5 200 10, mk_txn ''MSFT'' ''buy'' 8 350 12,
      mk_txn ''TSLA'' ''sell'' 5 250 20]"
  by (simp add: query_transactions_def store_tsla_def mk_txn_def)

lemma holdings_store_tsla: "get_portfolio_holdings store_tsla 1 = Some df_tsla"
  unfolding get_portfolio_holdings_def query_transactions_store_tsla
  by (simp add: query_portfolio_def store_tsla_def process_transactions_def mk_txn_def
        process_txn.simps Let_def DataFrame_def df_tsla_def)

lemma holdings_store_mixed: "get_portfolio_holdings store_mixed 1 = Some df_mixed"
proof -
  have "query_transactions store_mixed 1 =
          [mk_txn ''AAPL'' ''buy'' 10 150 10, mk_txn ''MSFT'' ''buy'' 8 350 12]"
    by (simp add: query_transactions_def store_mixed_def mk_txn_def)
  then show ?thesis
    unfolding get_portfolio_holdings_def
    by (simp add: query_portfolio_def store_mixed_def process_transactions_def mk_txn_def
          process_txn.simps Let_def DataFrame_def df_mixed_def)
qed

subsection \<open>The performance loop\<close>

lemma performance_loop_tickers:
  "map pos_ticker (fst (performance_loop prices rs (d, tc, tv))) =
     map pos_ticker d @ map row_ticker (filter (\<lambda>r. prices (row_ticker r) \<noteq> None) rs)"
  by (induction rs arbitrary: d tc tv) (auto simp: Let_def split: option.splits)

lemma performance_loop_costs:
  "map pos_total_cost (fst (performance_loop prices rs (d, tc, tv))) =
     map pos_total_cost d @
     map row_total_cost (filter (\<lambda>r. prices (row_ticker r) \<noteq> None) rs)"
  by (induction rs arbitrary: d tc tv) (auto simp: Let_def split: option.splits)

lemma performance_loop_total_cost:
  "fst (snd (performance_loop prices rs (d, tc, tv))) =
     tc + (\<Sum>r\<leftarrow>filter (\<lambda>r. prices (row_ticker r) \<noteq> None) rs. row_total_cost r)"
  by (induction rs arbitrary: d tc tv) (auto simp: Let_def split: option.splits)

lemma performance_loop_total_value:
  "snd (snd (performance_loop prices rs (d, tc, tv))) =
     tv + (\<Sum>r\<leftarrow>filter (\<lambda>r. prices (row_ticker r) \<noteq> None) rs.
             row_total_shares r * the (prices (row_ticker r)))"
  by (induction rs arbitrary: d tc tv) (auto simp: Let_def split: option.splits)

lemma performance_loop_filter:
  "performance_loop prices rs acc =
     performance_loop prices (filter (\<lambda>r. prices (row_ticker r) \<noteq> None) rs) acc"
proof (induction rs arbitrary: acc)
  case Nil
  show ?case by simp
next
  case (Cons r rs)
  obtain d tc tv where acc: "acc = (d, tc, tv)" by (cases acc)
  show ?case
    unfolding acc using Cons.IH by (auto simp: Let_def split: option.splits)
qed

lemma holdings_df_empty:
  "get_portfolio_holdings st pid = Some df \<Longrightarrow> df_empty df \<longleftrightarrow> rows df = []"
  by (auto simp: get_portfolio_holdings_def Let_def DataFrame_def df_empty_def
        holdings_columns_def split: option.splits if_splits)

subsection \<open>Rounding to binary64\<close>

text \<open>
  \<open>ilog2\<close> brackets its argument between two powers of two, \<open>f64\<close> is within half a
  unit in the last place of its argument, and it takes the known values: the double
  nearest to one tenth, and the two ties around two to the power 53.
\<close>

lemma pow2_nonneg: "0 \<le> k \<Longrightarrow> pow2 k = 2 ^ nat k"
  by (simp add: pow2_def)

lemma pow2_neg: "k \<le> 0 \<Longrightarrow> pow2 k = 1 / 2 ^ nat (- k)"
  by (auto simp: pow2_def)

lemma pow2_pos: "0 < pow2 k"
  by (simp add: pow2_def)

lemma ilog2_bounds_ge1:
  assumes "1 \<le> y"
  shows "pow2 (ilog2 y) \<le> y \<and> y < pow2 (ilog2 y + 1)"
proof -
  let ?n = "\<lfloor>y\<rfloor>"
  from assms have n: "0 < ?n" by simp
  from bitlen_bounds [OF n] have lo: "2 ^ nat (bitlen ?n - 1) \<le> ?n"
    and hi: "?n < 2 ^ nat (bitlen ?n)" by auto
  from n have b: "1 \<le> bitlen ?n"
    using bitlen_eq_zero_iff [of ?n] bitlen_nonneg [of ?n] by linarith
  have "real_of_int (2 ^ nat (bitlen ?n - 1)) \<le> real_of_int ?n"
    using lo by (simp only: of_int_le_iff)
  then have 1: "(2 :: real) ^ nat (bitlen ?n - 1) \<le> y"
    by (simp add: le_floor_iff)
  have "?n + 1 \<le> 2 ^ nat (bitlen ?n)"
    using hi by simp
  then have "real_of_int (?n + 1) \<le> real_of_int (2 ^ nat (bitlen ?n))"
    by (simp only: of_int_le_iff)
  then have "real_of_int ?n + 1 \<le> 2 ^ nat (bitlen ?n)"
    by simp
  moreover have "y < real_of_int ?n + 1"
    by linarith
  ultimately have 2: "y < (2 :: real) ^ nat (bitlen ?n)"
    by linarith
  from b have "nat (bitlen ?n - 1 + 1) = nat (bitlen ?n)"
    by simp
  with 1 2 b assms show ?thesis
    by (simp add: ilog2_def pow2_def)
qed

lemma ilog2_bounds_lt1:
  assumes "0 < y" and "y < 1"
  shows "pow2 (ilog2 y) \<le> y \<and> y < pow2 (ilog2 y + 1)"
proof -
  let ?z = "1 / y"
  let ?k = "bitlen \<lfloor>?z\<rfloor> - 1"
  from assms have z: "1 \<le> ?z" by simp
  from ilog2_bounds_ge1 [OF z] z
  have lo: "(2 :: real) ^ nat ?k \<le> ?z" and hi: "?z < pow2 (?k + 1)"
    and k: "0 \<le> ?k"
    using bitlen_eq_zero_iff [of "\<lfloor>?z\<rfloor>"] bitlen_nonneg [of "\<lfloor>?z\<rfloor>"]
    by (auto simp: ilog2_def pow2_def split: if_splits)
  from k have hi': "?z < 2 ^ nat (?k + 1)"
    using hi by (simp add: pow2_def)
  have p: "(0 :: real) < 2 ^ nat ?k" "(0 :: real) < 2 ^ nat (?k + 1)"
    by simp_all
  from lo assms(1) p have up: "y * 2 ^ nat ?k \<le> 1"
    by (simp add: field_simps)
  from hi' assms(1) p have dn: "1 < y * 2 ^ nat (?k + 1)"
    by (simp add: field_simps)
  show ?thesis
  proof (cases "y * 2 ^ nat ?k = 1")
    case True
    have i: "ilog2 y = - ?k"
      using assms True by (simp add: ilog2_def Let_def)
    have a: "pow2 (- ?k) = 1 / 2 ^ nat ?k"
      using k by (simp add: pow2_neg)
    from True p have 1: "1 / 2 ^ nat ?k \<le> y"
      by (simp add: field_simps)
    have 2: "y < pow2 (- ?k + 1)"
    proof (cases "?k = 0")
      case True
      with assms show ?thesis by (simp add: pow2_def)
    next
      case False
      with k have b: "pow2 (- ?k + 1) = 1 / 2 ^ nat (?k - 1)"
        by (simp add: pow2_def)
      have "(2 :: real) ^ nat (?k - 1) < 2 ^ nat ?k"
        using False k by (simp add: nat_diff_distrib)
      with assms(1) have "y * 2 ^ nat (?k - 1) < y * 2 ^ nat ?k"
        by simp
      with \<open>y * 2 ^ nat ?k = 1\<close> have "y * 2 ^ nat (?k - 1) < 1"
        by simp
      then have "y < 1 / 2 ^ nat (?k - 1)"
        by (simp add: field_simps)
      then show ?thesis
        by (simp only: b)
    qed
    from 1 2 show ?thesis
      by (simp only: i a)
  next
    case False
    have i: "ilog2 y = - ?k - 1"
      using assms False by (simp add: ilog2_def Let_def)
    from False up have lt: "y * 2 ^ nat ?k < 1" by simp
    have a: "pow2 (- ?k - 1) = 1 / 2 ^ nat (?k + 1)"
      using k by (simp add: pow2_def)
    have b: "pow2 (- ?k - 1 + 1) = 1 / 2 ^ nat ?k"
      using k by (simp add: pow2_neg)
    from dn p have "1 / 2 ^ nat (?k + 1) \<le> y"
      by (simp add: field_simps)
    moreover from lt p have "y < 1 / 2 ^ nat ?k"
      by (simp add: field_simps)
    ultimately show ?thesis
      unfolding i a b by simp
  qed
qed

lemma ilog2_bounds:
  "0 < y \<Longrightarrow> pow2 (ilog2 y) \<le> y \<and> y < pow2 (ilog2 y + 1)"
  using ilog2_bounds_ge1 [of y] ilog2_bounds_lt1 [of y] by (cases "1 \<le> y") auto

lemma round_half_even_nearest: "\<bar>real_of_int (round_half_even y) - y\<bar> \<le> 1 / 2"
proof -
  let ?n = "\<lfloor>y\<rfloor>"
  have lo: "real_of_int ?n \<le> y" and hi: "y < real_of_int ?n + 1"
    by linarith+
  have "round_half_even y = ?n \<and> y - real_of_int ?n \<le> 1 / 2 \<or>
        round_half_even y = ?n + 1 \<and> 1 / 2 \<le> y - real_of_int ?n"
    unfolding round_half_even_def Let_def by (simp split: if_splits)
  then show ?thesis
  proof
    assume a: "round_half_even y = ?n \<and> y - real_of_int ?n \<le> 1 / 2"
    then have "real_of_int (round_half_even y) = real_of_int ?n" by simp
    with a lo show ?thesis by linarith
  next
    assume a: "round_half_even y = ?n + 1 \<and> 1 / 2 \<le> y - real_of_int ?n"
    then have "real_of_int (round_half_even y) = real_of_int ?n + 1" by simp
    with a hi show ?thesis by linarith
  qed
qed

lemma abs_diff_scale:
  fixes m x u :: real
  assumes "0 < u"
  shows "\<bar>m - x / u\<bar> * u = \<bar>m * u - x\<bar>"
proof -
  have "\<bar>m - x / u\<bar> * u = \<bar>m - x / u\<bar> * \<bar>u\<bar>"
    using assms by simp
  also have "\<dots> = \<bar>(m - x / u) * u\<bar>"
    by (rule abs_mult [symmetric])
  also have "(m - x / u) * u = m * u - x"
    using assms by (simp add: field_simps)
  finally show ?thesis .
qed

lemma f64_nearest:
  "\<bar>f64 x - x\<bar> \<le> pow2 (max (ilog2 \<bar>x\<bar>) (- 1022) - 52) / 2"
proof (cases "x = 0")
  case True
  have "0 < pow2 (max (ilog2 \<bar>x\<bar>) (- 1022) - 52)"
    by (rule pow2_pos)
  moreover from True have "f64 x - x = 0"
    by (simp add: f64_def)
  ultimately show ?thesis by simp
next
  case False
  define u where "u = pow2 (max (ilog2 \<bar>x\<bar>) (- 1022) - 52)"
  define m where "m = real_of_int (round_half_even (x / u))"
  have u: "0 < u" unfolding u_def by (rule pow2_pos)
  have f: "f64 x = m * u"
    using False by (simp add: f64_def Let_def u_def m_def)
  have r: "\<bar>m - x / u\<bar> \<le> 1 / 2"
    unfolding m_def by (rule round_half_even_nearest)
  from u have "0 \<le> u" by simp
  with r have "\<bar>m - x / u\<bar> * u \<le> 1 / 2 * u"
    by (rule mult_right_mono)
  then have "\<bar>m * u - x\<bar> \<le> u / 2"
    by (simp only: abs_diff_scale [OF u])
  then show ?thesis
    by (simp only: f u_def)
qed

lemma f64_tenth: "f64 (1 / 10) = 3602879701896397 / 2 ^ 55"
  by code_simp

lemma f64_tie_down: "f64 9007199254740993 = 9007199254740992"
  by code_simp

lemma f64_tie_up: "f64 9007199254740995 = 9007199254740996"
  by code_simp

subsection \<open>The loop body with rounding\<close>

lemma process_txn_fl_exact: "process_txn_fl (\<lambda>x. x) s txn = process_txn s txn"
  by (cases s) (simp add: process_txn.simps process_txn_fl.simps)

lemma process_txn_fl_sell:
  assumes "transaction_type txn = ''sell''"
    and "0 < total_shares (acc_of h (ticker txn))"
  shows "acc_of (fst (process_txn_fl fl (h, w) txn)) (ticker txn) =
           \<lparr>total_shares = fl (total_shares (acc_of h (ticker txn)) - shares txn),
            total_cost = fl (total_cost (acc_of h (ticker txn)) -
              fl (shares txn * fl (total_cost (acc_of h (ticker txn)) /
                                    total_shares (acc_of h (ticker txn)))))\<rparr>"
  using assms
  by (auto simp: Let_def acc_of_def update_conv' split: option.splits)

declare process_txn_fl.simps [simp del]






text \<open>
  The change of the average is not bounded by a unit in the last place. After buys of one
  tenth and two tenths of a share at price 10, a sell of three tenths leaves \<open>2\<close> to the
  power \<open>- 54\<close> of a share, and the average goes from just below 10 to 8.
\<close>

lemma f64_dust_avg: "f64 (3 / (1351079888211149 / 2 ^ 52)) = 5629499534213119 / 2 ^ 49"
  by code_simp

lemma f64_dust_sold:
  "f64 (5404319552844595 / 2 ^ 54 * (5629499534213119 / 2 ^ 49)) = 6755399441055743 / 2 ^ 51"
  by code_simp

lemma f64_dust_cost: "f64 (3 - 6755399441055743 / 2 ^ 51) = 1 / 2 ^ 51"
  by code_simp

lemma f64_dust_shares:
  "f64 (1351079888211149 / 2 ^ 52 - 5404319552844595 / 2 ^ 54) = 1 / 2 ^ 54"
  by code_simp

lemma f64_dust_avg_after: "f64 (1 / 2 ^ 51 / (1 / 2 ^ 54)) = 8"
  by code_simp

lemma sell_avg_cost_far_off:
  "acc_of (fst (process_txn_fl f64 (holdings_dust, [])
                  (mk_txn ''X'' ''sell'' (5404319552844595 / 2 ^ 54) 10 3))) ''X'' =
     \<lparr>total_shares = 1 / 2 ^ 54, total_cost = 1 / 2 ^ 51\<rparr> \<and>
   f64 (3 / (1351079888211149 / 2 ^ 52)) = 5629499534213119 / 2 ^ 49 \<and>
   f64 (1 / 2 ^ 51 / (1 / 2 ^ 54)) = 8"
proof -
  let ?x = "mk_txn ''X'' ''sell'' (5404319552844595 / 2 ^ 54) 10 3"
  have x: "transaction_type ?x = ''sell''" "ticker ?x = ''X''"
    "shares ?x = 5404319552844595 / 2 ^ 54"
    by (simp_all add: mk_txn_def)
  have a: "acc_of holdings_dust ''X'' =
             \<lparr>total_shares = 1351079888211149 / 2 ^ 52, total_cost = 3\<rparr>"
    by (simp add: holdings_dust_def acc_of_def)
  have pos: "0 < total_shares (acc_of holdings_dust (ticker ?x))"
    unfolding x(2) a by simp
  have "acc_of (fst (process_txn_fl f64 (holdings_dust, []) ?x)) ''X'' =
          \<lparr>total_shares = f64 (1351079888211149 / 2 ^ 52 - 5404319552844595 / 2 ^ 54),
           total_cost = f64 (3 - f64 (5404319552844595 / 2 ^ 54 *
                          f64 (3 / (1351079888211149 / 2 ^ 52))))\<rparr>"
    using process_txn_fl_sell [OF x(1) pos, of f64 "[]"]
    by (simp only: x a accum.select_convs)
  then have "acc_of (fst (process_txn_fl f64 (holdings_dust, []) ?x)) ''X'' =
          \<lparr>total_shares = 1 / 2 ^ 54, total_cost = 1 / 2 ^ 51\<rparr>"
    by (simp only: f64_dust_avg f64_dust_sold f64_dust_cost f64_dust_shares)
  with f64_dust_avg f64_dust_avg_after show ?thesis by blast
qed

subsection \<open>The claims\<close>

text \<open>
  C1 (as stated): the claim asks for no result when the portfolio does not exist. In the store holding
  only portfolio 1, the performance of portfolio 2 is not \<^verbatim>\<open>None\<close>.
\<close>

theorem performance_not_found_counterexample:
  "2 \<notin> pf_id ` set (portfolios store_empty_pf) \<and>
   get_portfolio_performance example_prices store_empty_pf 2 \<noteq> None"
  by (simp add: store_empty_pf_def get_portfolio_performance_def get_portfolio_holdings_def
        query_portfolio_def)

text \<open>
  C1 (amended): for a portfolio identifier that refers to no portfolio,
  \<^verbatim>\<open>get_portfolio_performance\<close> returns the zeroed result (no positions, every aggregate 0),
  the same result it returns when the portfolio exists and its holdings frame has no row.
\<close>

theorem performance_not_found_zeroed:
  "(pid \<notin> pf_id ` set (portfolios st) \<longrightarrow>
      get_portfolio_performance prices st pid = Some zero_performance) \<and>
   (\<forall>df. get_portfolio_holdings st pid = Some df \<and> rows df = [] \<longrightarrow>
      get_portfolio_performance prices st pid = Some zero_performance)"
  by (auto simp: get_portfolio_performance_def holdings_None_iff [symmetric] df_empty_def)

theorem performance_not_found_zeroed_witness:
  "2 \<notin> pf_id ` set (portfolios store_empty_pf) \<and>
   get_portfolio_performance example_prices store_empty_pf 2 = Some zero_performance \<and>
   get_portfolio_holdings store_empty_pf 1 = Some \<lparr>columns = holdings_columns, rows = []\<rparr> \<and>
   rows \<lparr>columns = holdings_columns, rows = ([] :: holding_row list)\<rparr> = [] \<and>
   get_portfolio_performance example_prices store_empty_pf 1 = Some zero_performance"
proof -
  have a: "2 \<notin> pf_id ` set (portfolios store_empty_pf)"
    by (simp add: store_empty_pf_def)
  have b: "get_portfolio_holdings store_empty_pf 1 =
             Some \<lparr>columns = holdings_columns, rows = []\<rparr>"
    by (simp add: store_empty_pf_def get_portfolio_holdings_def query_portfolio_def
          query_transactions_def)
  have c: "rows \<lparr>columns = holdings_columns, rows = ([] :: holding_row list)\<rparr> = []"
    by simp
  from performance_not_found_zeroed [of 2 store_empty_pf example_prices]
    performance_not_found_zeroed [of 1 store_empty_pf example_prices] a b c
  show ?thesis by blast
qed



text \<open>
  C6: a transaction whose kind is neither buy nor sell (in any letter case), or whose
  quantity or price is not positive, is refused: \<^verbatim>\<open>add_transaction\<close> returns
  \<^verbatim>\<open>False\<close> and the store is the one it was given.
\<close>

theorem add_transaction_rejects:
  assumes "lower ttype \<notin> {''buy'', ''sell''} \<or> sh \<le> 0 \<or> price \<le> 0"
  shows "add_transaction st pid tick ttype sh price date note = (False, st)"
  using assms by (auto simp: add_transaction_def)

theorem add_transaction_rejects_witness:
  "lower ''hold'' \<notin> {''buy'', ''sell''} \<and>
   add_transaction store_empty_pf 1 ''AAPL'' ''hold'' 10 150 5 [] = (False, store_empty_pf) \<and>
   add_transaction store_empty_pf 1 ''AAPL'' ''buy'' 0 150 5 [] = (False, store_empty_pf) \<and>
   add_transaction store_empty_pf 1 ''AAPL'' ''buy'' 10 (- 150) 5 [] = (False, store_empty_pf)"
proof -
  have a: "lower ''hold'' \<notin> {''buy'', ''sell''}"
    by (simp add: lower_def lower_char_def)
  then have a': "lower ''hold'' \<notin> {''buy'', ''sell''} \<or> (10::real) \<le> 0 \<or> (150::real) \<le> 0"
    by blast
  have b: "lower ''buy'' \<notin> {''buy'', ''sell''} \<or> (0::real) \<le> 0 \<or> (150::real) \<le> 0"
    by simp
  have c: "lower ''buy'' \<notin> {''buy'', ''sell''} \<or> (10::real) \<le> 0 \<or> (- 150::real) \<le> 0"
    by simp
  from add_transaction_rejects [OF a'] add_transaction_rejects [OF b]
    add_transaction_rejects [OF c] a
  show ?thesis by blast
qed

text \<open>
  C7: for a portfolio identifier that refers to no portfolio,
  \<^verbatim>\<open>get_portfolio_holdings\<close> returns \<^verbatim>\<open>None\<close>, which differs from its result for
  every existing portfolio.
\<close>

theorem holdings_not_found:
  assumes "pid \<notin> pf_id ` set (portfolios st)"
  shows "get_portfolio_holdings st pid = None \<and>
         (\<forall>pid'. pid' \<in> pf_id ` set (portfolios st) \<longrightarrow>
                  get_portfolio_holdings st pid' \<noteq> get_portfolio_holdings st pid)"
  using assms by (metis holdings_None_iff)

theorem holdings_not_found_witness:
  "2 \<notin> pf_id ` set (portfolios store_empty_pf) \<and>
   get_portfolio_holdings store_empty_pf 2 = None \<and>
   1 \<in> pf_id ` set (portfolios store_empty_pf) \<and>
   get_portfolio_holdings store_empty_pf 1 \<noteq> get_portfolio_holdings store_empty_pf 2"
proof -
  have a: "2 \<notin> pf_id ` set (portfolios store_empty_pf)"
    by (simp add: store_empty_pf_def)
  have b: "1 \<in> pf_id ` set (portfolios store_empty_pf)"
    by (simp add: store_empty_pf_def)
  from holdings_not_found [OF a] a b show ?thesis by blast
qed

text \<open>
  C8: for an existing portfolio without transactions, \<^verbatim>\<open>get_portfolio_holdings\<close>
  returns the frame with the four holdings columns and no row.
\<close>

theorem holdings_empty_ledger:
  assumes "pid \<in> pf_id ` set (portfolios st)"
    and "filter (\<lambda>x. portfolio_id x = pid) (transactions st) = []"
  shows "get_portfolio_holdings st pid =
           Some \<lparr>columns = [''ticker'', ''total_shares'', ''avg_cost_basis'', ''total_cost''],
                 rows = []\<rparr>"
proof -
  from assms(1) obtain p where "query_portfolio st pid = Some p"
    using query_portfolio_None_iff [of st pid] by auto
  moreover from assms(2) have "query_transactions st pid = []"
    by (simp add: query_transactions_def)
  ultimately show ?thesis
    by (simp add: get_portfolio_holdings_def holdings_columns_def)
qed

theorem holdings_empty_ledger_witness:
  "2 \<in> pf_id ` set (portfolios store_two_pf) \<and>
   filter (\<lambda>x. portfolio_id x = 2) (transactions store_two_pf) = [] \<and>
   get_portfolio_holdings store_two_pf 2 =
     Some \<lparr>columns = [''ticker'', ''total_shares'', ''avg_cost_basis'', ''total_cost''],
           rows = []\<rparr>"
proof -
  have a: "2 \<in> pf_id ` set (portfolios store_two_pf)"
    by (simp add: store_two_pf_def)
  have b: "filter (\<lambda>x. portfolio_id x = 2) (transactions store_two_pf) = []"
    by (simp add: store_two_pf_def mk_txn_def)
  from holdings_empty_ledger [OF a b] a b show ?thesis by blast
qed

text \<open>
  C10: for a portfolio identifier that refers to no portfolio, the performance computation
  returns the zeroed result, and \<^verbatim>\<open>save_portfolio_snapshot\<close> still returns
  \<^verbatim>\<open>False\<close> and leaves the store as it was, by its own check of the portfolio.
\<close>

theorem snapshot_not_found:
  assumes "pid \<notin> pf_id ` set (portfolios st)"
  shows "get_portfolio_performance prices st pid = Some zero_performance \<and>
         save_portfolio_snapshot prices now st pid = (False, st)"
proof -
  from assms have h: "get_portfolio_holdings st pid = None"
    by (simp add: holdings_None_iff)
  from assms have q: "query_portfolio st pid = None"
    by (simp add: query_portfolio_None_iff)
  from h have p: "get_portfolio_performance prices st pid = Some zero_performance"
    by (simp add: get_portfolio_performance_def)
  from p q show ?thesis
    by (simp add: save_portfolio_snapshot_def)
qed

theorem snapshot_not_found_witness:
  "2 \<notin> pf_id ` set (portfolios store_empty_pf) \<and>
   get_portfolio_performance example_prices store_empty_pf 2 = Some zero_performance \<and>
   save_portfolio_snapshot example_prices 99 store_empty_pf 2 = (False, store_empty_pf)"
proof -
  have a: "2 \<notin> pf_id ` set (portfolios store_empty_pf)"
    by (simp add: store_empty_pf_def)
  from snapshot_not_found [OF a] a show ?thesis by blast
qed




text \<open>
  C5: a sell for a ticker whose current shares are not positive changes the shares and
  the total cost of no ticker and no row of the result; a dictionary that has the ticker
  is returned as it was (one that lacks it gains the entry with zero shares and zero cost
  that the loop creates before reading). The sell is recorded as a warning and nothing
  else.
\<close>

theorem oversell_noop:
  assumes "transaction_type txn = ''sell''"
    and "total_shares (acc_of h (ticker txn)) \<le> 0"
  shows "(\<forall>t. acc_of (fst (process_txn (h, w) txn)) t = acc_of h t) \<and>
         holdings_rows (fst (process_txn (h, w) txn)) = holdings_rows h \<and>
         (ticker txn \<in> fst ` set h \<longrightarrow> fst (process_txn (h, w) txn) = h) \<and>
         snd (process_txn (h, w) txn) = w @ [Selling_no_shares (shares txn) (ticker txn)]"
proof -
  note step = process_txn_sell_no_shares [OF assms, of w]
  have "acc_step (acc_of h (ticker txn)) txn = acc_of h (ticker txn)"
    using assms by (simp add: acc_step_def)
  then have 1: "\<forall>t. acc_of (fst (process_txn (h, w) txn)) t = acc_of h t"
    by (simp add: acc_of_process_txn)
  have 2: "holdings_rows (fst (process_txn (h, w) txn)) = holdings_rows h"
    unfolding step by (simp add: holdings_rows_update_zero)
  have 3: "ticker txn \<in> fst ` set h \<longrightarrow> fst (process_txn (h, w) txn) = h"
    unfolding step by (simp add: map_of_eq_None_iff)
  have 4: "snd (process_txn (h, w) txn) = w @ [Selling_no_shares (shares txn) (ticker txn)]"
    unfolding step by simp
  from 1 2 3 4 show ?thesis by blast
qed

theorem oversell_noop_witness:
  "transaction_type (mk_txn ''TSLA'' ''sell'' 5 250 20) = ''sell'' \<and>
   total_shares (acc_of holdings_tsla (ticker (mk_txn ''TSLA'' ''sell'' 5 250 20))) \<le> 0 \<and>
   acc_of (fst (process_txn (holdings_tsla, []) (mk_txn ''TSLA'' ''sell'' 5 250 20))) ''MSFT'' =
     \<lparr>total_shares = 8, total_cost = 2800\<rparr> \<and>
   holdings_rows (fst (process_txn (holdings_tsla, []) (mk_txn ''TSLA'' ''sell'' 5 250 20))) =
     holdings_rows holdings_tsla \<and>
   fst (process_txn (holdings_tsla, []) (mk_txn ''TSLA'' ''sell'' 5 250 20)) = holdings_tsla \<and>
   snd (process_txn (holdings_tsla, []) (mk_txn ''TSLA'' ''sell'' 5 250 20)) =
     [Selling_no_shares 5 ''TSLA'']"
proof -
  let ?x = "mk_txn ''TSLA'' ''sell'' 5 250 20"
  have a: "transaction_type ?x = ''sell''"
    by (simp add: mk_txn_def)
  have b: "total_shares (acc_of holdings_tsla (ticker ?x)) \<le> 0"
    by (simp add: mk_txn_def holdings_tsla_def acc_of_def)
  have k: "ticker ?x \<in> fst ` set holdings_tsla"
    by (simp add: mk_txn_def holdings_tsla_def)
  have m: "acc_of holdings_tsla ''MSFT'' = \<lparr>total_shares = 8, total_cost = 2800\<rparr>"
    by (simp add: holdings_tsla_def acc_of_def)
  have s: "shares ?x = 5" "ticker ?x = ''TSLA''"
    by (simp_all add: mk_txn_def)
  from oversell_noop [OF a b, of "[]"] k m s a b show ?thesis
    by simp
qed

text \<open>
  C4: the tickers of the rows that \<^verbatim>\<open>get_portfolio_holdings\<close> returns are exactly the
  tickers whose accumulated shares are strictly positive when the loop over the
  transactions ends. In particular, a ticker whose transactions are one buy followed by
  one sell of the same quantity has no row.
\<close>

theorem holdings_positive_shares:
  assumes "get_portfolio_holdings st pid = Some df"
  shows "set (map row_ticker (rows df)) =
           {t. \<exists>a. map_of (fst (process_transactions (query_transactions st pid))) t = Some a
                    \<and> 0 < total_shares a} \<and>
         (\<forall>t b s. filter (\<lambda>x. ticker x = t) (query_transactions st pid) = [b, s] \<and>
                  transaction_type b = ''buy'' \<and> transaction_type s = ''sell'' \<and>
                  shares s = shares b \<longrightarrow>
                  t \<notin> set (map row_ticker (rows df)))"
proof -
  let ?H = "fst (process_transactions (query_transactions st pid))"
  have r: "rows df = holdings_rows ?H"
    using assms by (rule holdings_rows_of_Some)
  have d: "distinct (map fst ?H)"
    by (rule distinct_process_transactions)
  have 1: "set (map row_ticker (rows df)) =
             {t. \<exists>a. map_of ?H t = Some a \<and> 0 < total_shares a}"
    unfolding r by (rule holdings_tickers_map_of [OF d])
  have 2: "t \<notin> set (map row_ticker (rows df))"
    if f: "filter (\<lambda>x. ticker x = t) (query_transactions st pid) = [b, s]"
      and b: "transaction_type b = ''buy''" and s: "transaction_type s = ''sell''"
      and q: "shares s = shares b"
    for t b s
  proof -
    have "acc_of ?H t = foldl acc_step \<lparr>total_shares = 0, total_cost = 0\<rparr> [b, s]"
      unfolding acc_of_process_transactions f ..
    then have "total_shares (acc_of ?H t) \<le> 0"
      using b s q by (simp add: acc_step_def)
    then have "filter (\<lambda>r. row_ticker r = t) (rows df) = []"
      unfolding r by (simp add: holdings_rows_ticker [OF d])
    then show ?thesis
      by (auto simp: filter_empty_conv)
  qed
  from 1 2 show ?thesis by blast
qed

theorem holdings_positive_shares_witness:
  "get_portfolio_holdings store_tsla 1 = Some df_tsla \<and>
   set (map row_ticker (rows df_tsla)) = {''MSFT''} \<and>
   filter (\<lambda>x. ticker x = ''TSLA'') (query_transactions store_tsla 1) =
     [mk_txn ''TSLA'' ''buy'' 5 200 10, mk_txn ''TSLA'' ''sell'' 5 250 20] \<and>
   transaction_type (mk_txn ''TSLA'' ''buy'' 5 200 10) = ''buy'' \<and>
   transaction_type (mk_txn ''TSLA'' ''sell'' 5 250 20) = ''sell'' \<and>
   shares (mk_txn ''TSLA'' ''sell'' 5 250 20) = shares (mk_txn ''TSLA'' ''buy'' 5 200 10) \<and>
   ''TSLA'' \<notin> set (map row_ticker (rows df_tsla))"
proof -
  let ?b = "mk_txn ''TSLA'' ''buy'' 5 200 10"
  let ?s = "mk_txn ''TSLA'' ''sell'' 5 250 20"
  have f: "filter (\<lambda>x. ticker x = ''TSLA'') (query_transactions store_tsla 1) = [?b, ?s]"
    unfolding query_transactions_store_tsla by (simp add: mk_txn_def)
  have k: "transaction_type ?b = ''buy''" "transaction_type ?s = ''sell''"
    "shares ?s = shares ?b"
    by (simp_all add: mk_txn_def)
  have m: "set (map row_ticker (rows df_tsla)) = {''MSFT''}"
    by (simp add: df_tsla_def)
  from holdings_positive_shares [OF holdings_store_tsla] f k
  have "''TSLA'' \<notin> set (map row_ticker (rows df_tsla))"
    by blast
  with holdings_store_tsla m f k show ?thesis by blast
qed

text \<open>
  C9: a position whose price lookup returns nothing is in neither the list of positions nor
  any aggregate of \<^verbatim>\<open>get_portfolio_performance\<close>: the positions are those of the priced
  rows of the holdings frame, in order, and total cost, total value and gain are sums over
  the priced rows alone.
\<close>

theorem performance_excludes_unpriced:
  assumes "get_portfolio_holdings st pid = Some df"
    and "priced = filter (\<lambda>r. prices (row_ticker r) \<noteq> None) (rows df)"
  shows "\<exists>perf. get_portfolio_performance prices st pid = Some perf \<and>
           map pos_ticker (rows (positions perf)) = map row_ticker priced \<and>
           map pos_total_cost (rows (positions perf)) = map row_total_cost priced \<and>
           perf_total_cost perf = (\<Sum>r\<leftarrow>priced. row_total_cost r) \<and>
           total_current_value perf =
             (\<Sum>r\<leftarrow>priced. row_total_shares r * the (prices (row_ticker r))) \<and>
           total_gain_loss_dollar perf = total_current_value perf - perf_total_cost perf"
proof (cases "rows df = []")
  case True
  with assms show ?thesis
    by (simp add: get_portfolio_performance_def holdings_df_empty zero_performance_def)
next
  case False
  obtain d tc tv where l: "performance_loop prices (rows df) ([], 0, 0) = (d, tc, tv)"
    by (cases "performance_loop prices (rows df) ([], 0, 0)")
  have 1: "map pos_ticker d = map row_ticker priced"
    using performance_loop_tickers [of prices "rows df" "[]" 0 0] l assms(2) by simp
  have 2: "map pos_total_cost d = map row_total_cost priced"
    using performance_loop_costs [of prices "rows df" "[]" 0 0] l assms(2) by simp
  have 3: "tc = (\<Sum>r\<leftarrow>priced. row_total_cost r)"
    using performance_loop_total_cost [of prices "rows df" "[]" 0 0] l assms(2) by simp
  have 4: "tv = (\<Sum>r\<leftarrow>priced. row_total_shares r * the (prices (row_ticker r)))"
    using performance_loop_total_value [of prices "rows df" "[]" 0 0] l assms(2) by simp
  from False assms(1) have ne: "\<not> df_empty df"
    by (simp add: holdings_df_empty)
  have "get_portfolio_performance prices st pid =
          Some \<lparr>positions = DataFrame position_columns d, perf_total_cost = tc,
                total_current_value = tv, total_gain_loss_dollar = tv - tc,
                total_gain_loss_percent = (if tc > 0 then (tv - tc) / tc * 100 else 0)\<rparr>"
    using assms(1) ne l by (simp add: get_portfolio_performance_def Let_def)
  with 1 2 3 4 show ?thesis
    by (simp add: DataFrame_def)
qed

theorem performance_excludes_unpriced_witness:
  "get_portfolio_holdings store_mixed 1 = Some df_mixed \<and>
   [\<lparr>row_ticker = ''AAPL'', row_total_shares = 10, row_avg_cost_basis = 150,
     row_total_cost = 1500\<rparr>] =
     filter (\<lambda>r. example_prices (row_ticker r) \<noteq> None) (rows df_mixed) \<and>
   (\<exists>perf. get_portfolio_performance example_prices store_mixed 1 = Some perf \<and>
      map pos_ticker (rows (positions perf)) = [''AAPL''] \<and>
      map pos_total_cost (rows (positions perf)) = [1500] \<and>
      perf_total_cost perf = 1500 \<and>
      total_current_value perf = 1750 \<and>
      total_gain_loss_dollar perf = total_current_value perf - perf_total_cost perf)"
proof -
  let ?r = "\<lparr>row_ticker = ''AAPL'', row_total_shares = 10, row_avg_cost_basis = 150,
             row_total_cost = 1500\<rparr>"
  have b: "[?r] = filter (\<lambda>r. example_prices (row_ticker r) \<noteq> None) (rows df_mixed)"
    by (simp add: df_mixed_def example_prices_def)
  have p: "the (example_prices ''AAPL'') = 175"
    by (simp add: example_prices_def)
  have "\<exists>perf. get_portfolio_performance example_prices store_mixed 1 = Some perf \<and>
      map pos_ticker (rows (positions perf)) = [''AAPL''] \<and>
      map pos_total_cost (rows (positions perf)) = [1500] \<and>
      perf_total_cost perf = 1500 \<and>
      total_current_value perf = 1750 \<and>
      total_gain_loss_dollar perf = total_current_value perf - perf_total_cost perf"
    using performance_excludes_unpriced [OF holdings_store_mixed b] p by simp
  with holdings_store_mixed b show ?thesis by blast
qed

end
